theory Spec2Isabelle
  imports Main
begin

unbundle bit_operations_syntax

section \<open>Format descriptors of \<open>bit_layouts.hpp\<close>\<close>

text \<open>
  Each \<open>ieee754_binaryNN\<close> struct of the header holds six \<open>static constexpr int\<close>
  members. A struct is a record here, a member an \<open>int\<close>, and each of the four
  structs a constant of the record type with the literals of the header.
  \<open>ieee754_binary80\<close> stands inside the first branch of the header's
  \<open>#if LDBL_MANT_DIG == 64 && LDBL_MAX_EXP == 16384\<close> chain; the other three
  are declared on every platform.
\<close>

record ieee754 =
  significand_bits :: int
  exponent_bits :: int
  min_exponent :: int
  max_exponent :: int
  exponent_bias :: int
  decimal_digits :: int

definition ieee754_binary32 :: ieee754 where
  "ieee754_binary32 =
     \<lparr>significand_bits = 23, exponent_bits = 8, min_exponent = -126,
      max_exponent = 127, exponent_bias = -127, decimal_digits = 9\<rparr>"

definition ieee754_binary64 :: ieee754 where
  "ieee754_binary64 =
     \<lparr>significand_bits = 52, exponent_bits = 11, min_exponent = -1022,
      max_exponent = 1023, exponent_bias = -1023, decimal_digits = 17\<rparr>"

definition ieee754_binary80 :: ieee754 where
  "ieee754_binary80 =
     \<lparr>significand_bits = 63, exponent_bits = 15, min_exponent = -16382,
      max_exponent = 16383, exponent_bias = 16383, decimal_digits = 18\<rparr>"

definition ieee754_binary128 :: ieee754 where
  "ieee754_binary128 =
     \<lparr>significand_bits = 112, exponent_bits = 15, min_exponent = -16382,
      max_exponent = 16383, exponent_bias = 16383, decimal_digits = 33\<rparr>"

section \<open>Bit-field overlays\<close>

text \<open>
  A bit-field struct is the list of its members in declaration order; a member
  \<open>std::uint32_t exponent : 15\<close> is \<open>BitField uint32_t exponent 15\<close>.
  The header picks the member order with \<open>BOOST_CHARCONV_ENDIAN_LITTLE_BYTE\<close>
  (from \<open>config.hpp\<close>, not part of this header), which is a parameter here.
\<close>

datatype unit_type = uint32_t | uint64_t

datatype field_name = mantissa_l | mantissa_h | exponent | sign | pad

datatype bit_field = BitField (ftype: unit_type) (fname: field_name) (width: nat)

text \<open>The struct \<open>IEEEl2bits\<close> of the branch for an 80 bit long double.\<close>

definition IEEEl2bits_80 :: "bool \<Rightarrow> bit_field list" where
  "IEEEl2bits_80 BOOST_CHARCONV_ENDIAN_LITTLE_BYTE =
     (if BOOST_CHARCONV_ENDIAN_LITTLE_BYTE then
        [BitField uint32_t mantissa_l 32,
         BitField uint32_t mantissa_h 32,
         BitField uint32_t exponent 15,
         BitField uint32_t sign 1,
         BitField uint32_t pad 32]
      else
        [BitField uint32_t pad 32,
         BitField uint32_t sign 1,
         BitField uint32_t exponent 15,
         BitField uint32_t mantissa_h 32,
         BitField uint32_t mantissa_l 32])"

text \<open>The struct \<open>IEEEl2bits\<close> of the branch for a 128 bit long double.\<close>

definition IEEEl2bits_128 :: "bool \<Rightarrow> bit_field list" where
  "IEEEl2bits_128 BOOST_CHARCONV_ENDIAN_LITTLE_BYTE =
     (if BOOST_CHARCONV_ENDIAN_LITTLE_BYTE then
        [BitField uint64_t mantissa_l 64,
         BitField uint64_t mantissa_h 48,
         BitField uint32_t exponent 15,
         BitField uint32_t sign 1]
      else
        [BitField uint32_t sign 1,
         BitField uint32_t exponent 15,
         BitField uint64_t mantissa_h 48,
         BitField uint64_t mantissa_l 64])"

text \<open>The struct \<open>IEEEl2bits\<close> of the branch for a 64 bit long double.\<close>

definition IEEEl2bits_64 :: "bool \<Rightarrow> bit_field list" where
  "IEEEl2bits_64 BOOST_CHARCONV_ENDIAN_LITTLE_BYTE =
     (if BOOST_CHARCONV_ENDIAN_LITTLE_BYTE then
        [BitField uint32_t mantissa_l 32,
         BitField uint32_t mantissa_h 20,
         BitField uint32_t exponent 11,
         BitField uint32_t sign 1]
      else
        [BitField uint32_t sign 1,
         BitField uint32_t exponent 11,
         BitField uint32_t mantissa_h 20,
         BitField uint32_t mantissa_l 32])"

text \<open>
  The \<open>#if\<close> / \<open>#elif\<close> / \<open>#else\<close> chain over \<open>LDBL_MANT_DIG\<close> and
  \<open>LDBL_MAX_EXP\<close> (both from \<open><cfloat>\<close>, so parameters here). It decides
  which struct \<open>IEEEl2bits\<close> is (\<open>None\<close>: the header declares none), the value
  of the macro \<open>BOOST_CHARCONV_LDBL_BITS\<close> (\<open>None\<close>: not defined) and whether
  the macro \<open>BOOST_MATH_UNSUPPORTED_LONG_DOUBLE\<close> is defined.
\<close>

definition IEEEl2bits :: "int \<Rightarrow> int \<Rightarrow> bool \<Rightarrow> bit_field list option" where
  "IEEEl2bits LDBL_MANT_DIG LDBL_MAX_EXP BOOST_CHARCONV_ENDIAN_LITTLE_BYTE =
     (if LDBL_MANT_DIG = 64 \<and> LDBL_MAX_EXP = 16384 then
        Some (IEEEl2bits_80 BOOST_CHARCONV_ENDIAN_LITTLE_BYTE)
      else if LDBL_MANT_DIG = 113 \<and> LDBL_MAX_EXP = 16384 then
        Some (IEEEl2bits_128 BOOST_CHARCONV_ENDIAN_LITTLE_BYTE)
      else if LDBL_MANT_DIG = 53 \<and> LDBL_MAX_EXP = 1024 then
        Some (IEEEl2bits_64 BOOST_CHARCONV_ENDIAN_LITTLE_BYTE)
      else None)"

definition BOOST_CHARCONV_LDBL_BITS :: "int \<Rightarrow> int \<Rightarrow> nat option" where
  "BOOST_CHARCONV_LDBL_BITS LDBL_MANT_DIG LDBL_MAX_EXP =
     (if LDBL_MANT_DIG = 64 \<and> LDBL_MAX_EXP = 16384 then Some 80
      else if LDBL_MANT_DIG = 113 \<and> LDBL_MAX_EXP = 16384 then Some 128
      else if LDBL_MANT_DIG = 53 \<and> LDBL_MAX_EXP = 1024 then Some 64
      else None)"

definition BOOST_MATH_UNSUPPORTED_LONG_DOUBLE :: "int \<Rightarrow> int \<Rightarrow> bool" where
  "BOOST_MATH_UNSUPPORTED_LONG_DOUBLE LDBL_MANT_DIG LDBL_MAX_EXP =
     (if LDBL_MANT_DIG = 64 \<and> LDBL_MAX_EXP = 16384 then False
      else if LDBL_MANT_DIG = 113 \<and> LDBL_MAX_EXP = 16384 then False
      else if LDBL_MANT_DIG = 53 \<and> LDBL_MAX_EXP = 1024 then False
      else True)"

text \<open>The struct \<open>IEEEbinary128\<close>, declared after the chain on every platform.\<close>

definition IEEEbinary128 :: "bool \<Rightarrow> bit_field list" where
  "IEEEbinary128 BOOST_CHARCONV_ENDIAN_LITTLE_BYTE =
     (if BOOST_CHARCONV_ENDIAN_LITTLE_BYTE then
        [BitField uint64_t mantissa_l 64,
         BitField uint64_t mantissa_h 48,
         BitField uint32_t exponent 15,
         BitField uint32_t sign 1]
      else
        [BitField uint32_t sign 1,
         BitField uint32_t exponent 15,
         BitField uint64_t mantissa_h 48,
         BitField uint64_t mantissa_l 64])"

text \<open>
  The four outcomes of the chain, under the names the specification gives them
  (\<open>LayoutKind\<close>).
\<close>

datatype LayoutKind = Extended80 | Quad128 | Aliased64 | Unsupported

text \<open>The branch of the chain that is taken.\<close>

definition layout_kind :: "int \<Rightarrow> int \<Rightarrow> LayoutKind" where
  "layout_kind LDBL_MANT_DIG LDBL_MAX_EXP =
     (if LDBL_MANT_DIG = 64 \<and> LDBL_MAX_EXP = 16384 then Extended80
      else if LDBL_MANT_DIG = 113 \<and> LDBL_MAX_EXP = 16384 then Quad128
      else if LDBL_MANT_DIG = 53 \<and> LDBL_MAX_EXP = 1024 then Aliased64
      else Unsupported)"

text \<open>The sum of the widths a struct declares.\<close>

definition total_width :: "bit_field list \<Rightarrow> nat" where
  "total_width fs = sum_list (map width fs)"

text \<open>The width a struct declares under one member name (0 when it has no such member).\<close>

definition width_of :: "bit_field list \<Rightarrow> field_name \<Rightarrow> nat" where
  "width_of fs n = sum_list (map width (filter (\<lambda>f. fname f = n) fs))"

text \<open>The sum of the widths of the members that hold the value: all but the padding.\<close>

definition value_width :: "bit_field list \<Rightarrow> nat" where
  "value_width fs =
     width_of fs sign + width_of fs exponent + width_of fs mantissa_h + width_of fs mantissa_l"

text \<open>
  A struct's members against a descriptor: one sign bit, \<open>exponent_bits\<close> bits of
  exponent, and \<open>significand_bits\<close> bits of mantissa over the two words, plus
  \<open>integer_bits\<close> stored leading bits (1 when the integer bit is explicit).
\<close>

definition matches_descriptor :: "bit_field list \<Rightarrow> ieee754 \<Rightarrow> int \<Rightarrow> bool" where
  "matches_descriptor fs d integer_bits =
     (width_of fs sign = 1
      \<and> int (width_of fs exponent) = exponent_bits d
      \<and> int (width_of fs mantissa_h + width_of fs mantissa_l)
          = significand_bits d + integer_bits)"

section \<open>The bit view: decompose and compose\<close>

text \<open>
  The header declares data only: the descriptors and the overlays. The operations
  of the specification's bit view, its kinds and its registry lookup are not code
  of the header; they are modelled here from the specification, over the overlays
  and descriptors above.
\<close>

text \<open>
  Modelled from the spec: the four binary kinds (\<open>BinaryKind\<close>) that the registry
  and the bit view are indexed by; the header has the four structs but no type
  that enumerates them.
\<close>

datatype BinaryKind = binary32 | binary64 | binary80 | binary128

text \<open>
  Modelled from the spec: \<open>lookup(kind) -> FormatDescriptor\<close>, the registry's
  total lookup; the header has no such function, only the four structs it returns.
\<close>

fun lookup :: "BinaryKind \<Rightarrow> ieee754" where
  "lookup binary32 = ieee754_binary32"
| "lookup binary64 = ieee754_binary64"
| "lookup binary80 = ieee754_binary80"
| "lookup binary128 = ieee754_binary128"

text \<open>
  Modelled from the spec: the total storage width of a raw bit pattern of each
  kind, "32/64/80/128 respectively"; the header defines a width only for the
  native long double (\<open>BOOST_CHARCONV_LDBL_BITS\<close>).
\<close>

fun storage_bits :: "BinaryKind \<Rightarrow> nat" where
  "storage_bits binary32 = 32"
| "storage_bits binary64 = 64"
| "storage_bits binary80 = 80"
| "storage_bits binary128 = 128"

text \<open>
  Modelled from the spec: the fixed layout of a kind for which the header declares
  no overlay (binary32). The specification gives the fixed kinds an implicit
  leading bit and the fields \<open>sign(1) + exponent_bits + significand_bits\<close> of
  the descriptor, significand lowest under little-endian order and the exact
  reverse under big-endian order.
\<close>

definition fixed_bits :: "ieee754 \<Rightarrow> bool \<Rightarrow> bit_field list" where
  "fixed_bits d little =
     (if little then
        [BitField uint32_t mantissa_l (nat (significand_bits d)),
         BitField uint32_t exponent (nat (exponent_bits d)),
         BitField uint32_t sign 1]
      else
        [BitField uint32_t sign 1,
         BitField uint32_t exponent (nat (exponent_bits d)),
         BitField uint32_t mantissa_l (nat (significand_bits d))])"

text \<open>
  Modelled from the spec: the overlay through which each kind is viewed. binary80
  is the header's 80 bit \<open>IEEEl2bits\<close>, binary128 its \<open>IEEEbinary128\<close>,
  binary64 its 64 bit \<open>IEEEl2bits\<close> (the overlay of a long double that is a
  double, "bit-identical to binary64"), and binary32 the fixed layout above.
\<close>

fun kind_fields :: "BinaryKind \<Rightarrow> bool \<Rightarrow> bit_field list" where
  "kind_fields binary32 little = fixed_bits ieee754_binary32 little"
| "kind_fields binary64 little = IEEEl2bits_64 little"
| "kind_fields binary80 little = IEEEl2bits_80 little"
| "kind_fields binary128 little = IEEEbinary128 little"

text \<open>
  Modelled from the spec: an entry of the "table of (shift, mask) per field per
  layout/endianness" that stands for the compiler's bit-field packing, which the
  header leaves to the compiler. A slot is a field's name, its shift and its
  width (the mask is \<open>2 ^ width - 1\<close>), counted in the raw pattern read as one
  unsigned number.
\<close>

type_synonym slot = "field_name \<times> nat \<times> nat"

text \<open>
  Modelled from the spec: the table of a little-endian member order, absent from
  the header. The members are packed without gaps in declaration order, upwards
  from bit \<open>pos\<close>. Storage-unit alignment is not part of the table.
\<close>

fun alloc_up :: "bit_field list \<Rightarrow> nat \<Rightarrow> slot list" where
  "alloc_up [] pos = []"
| "alloc_up (f # fs) pos = (fname f, pos, width f) # alloc_up fs (pos + width f)"

text \<open>
  Modelled from the spec: the table of a big-endian member order, absent from the
  header. The members are packed without gaps in declaration order, downwards
  from bit \<open>hi\<close>.
\<close>

fun alloc_down :: "bit_field list \<Rightarrow> nat \<Rightarrow> slot list" where
  "alloc_down [] hi = []"
| "alloc_down (f # fs) hi =
     (fname f, hi - width f, width f) # alloc_down fs (hi - width f)"

text \<open>
  Modelled from the spec: the table of an overlay under the given endianness,
  absent from the header; the big-endian packing starts at the top of the
  declared width.
\<close>

definition slots :: "bool \<Rightarrow> bit_field list \<Rightarrow> slot list" where
  "slots little fs =
     (if little then alloc_up fs 0 else alloc_down fs (total_width fs))"

text \<open>
  Modelled from the spec: the shift and width of a field in a table, absent from
  the header. A field the layout does not have is empty (width 0).
\<close>

fun slot_of :: "slot list \<Rightarrow> field_name \<Rightarrow> nat \<times> nat" where
  "slot_of [] n = (0, 0)"
| "slot_of ((m, sh, w) # tab) n = (if m = n then (sh, w) else slot_of tab n)"

text \<open>
  Modelled from the spec: reading one field of a raw pattern through the table
  (shift down, then mask); the header has no code that reads a field.
\<close>

definition field_get :: "slot list \<Rightarrow> field_name \<Rightarrow> nat \<Rightarrow> nat" where
  "field_get tab n raw =
     (case slot_of tab n of (sh, w) \<Rightarrow> take_bit w (drop_bit sh raw))"

text \<open>
  Modelled from the spec: the bits one field contributes to a raw pattern; the
  header has no code that writes a field. The write keeps the low \<open>width\<close>
  bits of the value, as an assignment to a bit-field does.
\<close>

definition field_put :: "slot list \<Rightarrow> field_name \<Rightarrow> nat \<Rightarrow> nat" where
  "field_put tab n v =
     (case slot_of tab n of (sh, w) \<Rightarrow> push_bit sh (take_bit w v))"

text \<open>
  Modelled from the spec: the result of \<open>decompose\<close>,
  \<open>{sign, exponent, significand}\<close>, each an unsigned number; the header has no
  such type.
\<close>

record parts =
  sign_bit :: nat
  exponent_field :: nat
  significand :: nat

text \<open>
  Modelled from the spec: \<open>decompose\<close> over a table, absent from the header. The
  significand is the high mantissa word above the low one (for binary80 it
  therefore holds the explicit integer bit); padding is not read. There is no
  error result: the specification gives the operation none.
\<close>

definition decompose_slots :: "slot list \<Rightarrow> nat \<Rightarrow> parts" where
  "decompose_slots tab raw =
     \<lparr>sign_bit = field_get tab sign raw,
      exponent_field = field_get tab exponent raw,
      significand = field_get tab mantissa_l raw
        OR push_bit (snd (slot_of tab mantissa_l)) (field_get tab mantissa_h raw)\<rparr>"

text \<open>
  Modelled from the spec: \<open>compose\<close> over a table, absent from the header, the
  inverse of \<open>decompose\<close>. Padding is written as zero. There is no error
  result: the specification gives the operation none.
\<close>

definition compose_slots :: "slot list \<Rightarrow> parts \<Rightarrow> nat" where
  "compose_slots tab p =
     field_put tab mantissa_l (significand p)
     OR field_put tab mantissa_h
          (drop_bit (snd (slot_of tab mantissa_l)) (significand p))
     OR field_put tab exponent (exponent_field p)
     OR field_put tab sign (sign_bit p)
     OR field_put tab pad 0"

text \<open>
  Modelled from the spec: \<open>decompose\<close> through a declared overlay under the given
  endianness; the header has the overlay but not the operation.
\<close>

definition decompose_fields :: "bit_field list \<Rightarrow> bool \<Rightarrow> nat \<Rightarrow> parts" where
  "decompose_fields fs little raw = decompose_slots (slots little fs) raw"

text \<open>
  Modelled from the spec: \<open>compose\<close> through a declared overlay under the given
  endianness; the header has the overlay but not the operation.
\<close>

definition compose_fields :: "bit_field list \<Rightarrow> bool \<Rightarrow> parts \<Rightarrow> nat" where
  "compose_fields fs little p = compose_slots (slots little fs) p"

text \<open>
  Modelled from the spec: \<open>decompose(kind, raw_bits)\<close>, parameterised by kind and
  endianness; absent from the header.
\<close>

definition decompose :: "BinaryKind \<Rightarrow> bool \<Rightarrow> nat \<Rightarrow> parts" where
  "decompose k little raw = decompose_fields (kind_fields k little) little raw"

text \<open>
  Modelled from the spec: \<open>compose(kind, fields)\<close>, parameterised by kind and
  endianness; absent from the header.
\<close>

definition compose :: "BinaryKind \<Rightarrow> bool \<Rightarrow> parts \<Rightarrow> nat" where
  "compose k little p = compose_fields (kind_fields k little) little p"

section \<open>Facts about the bit operations and the slot tables\<close>

lemma join2:
  "take_bit a (x::nat) OR push_bit a (take_bit b (drop_bit a x)) = take_bit (a + b) x"
  by (rule bit_eqI) (auto simp add: bit_simps)

lemma split4:
  fixes raw :: nat
  assumes "raw < 2 ^ (a + b + c + d)"
  shows "take_bit a raw
     OR push_bit a (take_bit b (drop_bit a raw))
     OR push_bit (a + b) (take_bit c (drop_bit (a + b) raw))
     OR push_bit (a + b + c) (take_bit d (drop_bit (a + b + c) raw)) = raw"
proof -
  have "((take_bit a raw
     OR push_bit a (take_bit b (drop_bit a raw)))
     OR push_bit (a + b) (take_bit c (drop_bit (a + b) raw)))
     OR push_bit (a + b + c) (take_bit d (drop_bit (a + b + c) raw))
     = take_bit (a + b + c + d) raw"
    by (simp only: join2)
  moreover have "take_bit (a + b + c + d) raw = raw"
    using assms by (simp add: take_bit_nat_eq_self)
  ultimately show ?thesis
    by (simp only: or.assoc)
qed

lemma rejoin:
  "take_bit a (take_bit a (x::nat) OR push_bit a (take_bit b y))
     OR push_bit a (take_bit b (drop_bit a (take_bit a x OR push_bit a (take_bit b y))))
   = take_bit a x OR push_bit a (take_bit b y)"
  by (rule bit_eqI) (auto simp add: bit_simps)

lemma or_less_exp:
  fixes x y :: nat
  assumes "x < 2 ^ n" and "y < 2 ^ n"
  shows "x OR y < 2 ^ n"
proof -
  have "take_bit n (x OR y) = x OR y"
    using assms by (simp add: take_bit_nat_eq_self)
  then show ?thesis
    by (metis take_bit_nat_less_exp)
qed

lemma field_put_less:
  assumes "slot_of tab n = (sh, w)" and "sh + w \<le> N"
  shows "field_put tab n v < 2 ^ N"
proof -
  have "field_put tab n v = take_bit (sh + w) (push_bit sh v)"
    using assms(1) by (simp add: field_put_def push_bit_take_bit)
  then have "field_put tab n v < 2 ^ (sh + w)"
    by (simp add: take_bit_nat_less_exp)
  also have "(2::nat) ^ (sh + w) \<le> 2 ^ N"
    using assms(2) by (simp add: power_increasing)
  finally show ?thesis .
qed

lemma field_get_less:
  assumes "slot_of tab n = (sh, w)"
  shows "field_get tab n raw < 2 ^ w"
  using assms by (simp add: field_get_def take_bit_nat_less_exp)

lemma significand_less:
  assumes "slot_of tab mantissa_l = (s0, a)" and "slot_of tab mantissa_h = (s, b)"
  shows "significand (decompose_slots tab raw) < 2 ^ (a + b)"
proof -
  have "field_get tab mantissa_l raw < 2 ^ a"
    by (rule field_get_less [OF assms(1)])
  also have "(2::nat) ^ a \<le> 2 ^ (a + b)"
    by (simp add: power_increasing)
  finally have low: "field_get tab mantissa_l raw < 2 ^ (a + b)" .
  have "push_bit a (field_get tab mantissa_h raw)
      = take_bit (a + b) (push_bit a (drop_bit s raw))"
    using assms(2) by (simp add: field_get_def push_bit_take_bit)
  then have high: "push_bit a (field_get tab mantissa_h raw) < 2 ^ (a + b)"
    by (simp only: take_bit_nat_less_exp)
  show ?thesis
    using or_less_exp [OF low high] assms(1) by (simp add: decompose_slots_def)
qed

lemma compose_slots_less:
  assumes "slot_of tab mantissa_l = (s1, w1)" and "s1 + w1 \<le> N"
    and "slot_of tab mantissa_h = (s2, w2)" and "s2 + w2 \<le> N"
    and "slot_of tab exponent = (s3, w3)" and "s3 + w3 \<le> N"
    and "slot_of tab sign = (s4, w4)" and "s4 + w4 \<le> N"
  shows "compose_slots tab p < 2 ^ N"
proof -
  have "field_put tab pad 0 = 0"
    by (simp add: field_put_def split: prod.split)
  then show ?thesis
    unfolding compose_slots_def
    by (simp add: or_less_exp field_put_less [OF assms(1,2)] field_put_less [OF assms(3,4)]
        field_put_less [OF assms(5,6)] field_put_less [OF assms(7,8)])
qed

lemma roundtrip_slots:
  assumes "slot_of tab mantissa_l = (0, a)"
    and "slot_of tab mantissa_h = (s, b)"
    and "b = 0 \<or> s = a"
    and "slot_of tab exponent = (a + b, c)"
    and "slot_of tab sign = (a + b + c, d)"
    and "raw < 2 ^ (a + b + c + d)"
  shows "compose_slots tab (decompose_slots tab raw) = raw"
proof -
  have hi: "push_bit s (take_bit b x) = push_bit a (take_bit b x)" for x :: nat
    using assms(3) by auto
  have "compose_slots tab (decompose_slots tab raw) =
     (take_bit a (take_bit a raw OR push_bit a (take_bit b (drop_bit s raw)))
      OR push_bit a (take_bit b (drop_bit a
           (take_bit a raw OR push_bit a (take_bit b (drop_bit s raw))))))
     OR push_bit (a + b) (take_bit c (drop_bit (a + b) raw))
     OR push_bit (a + b + c) (take_bit d (drop_bit (a + b + c) raw))"
    unfolding compose_slots_def decompose_slots_def field_get_def field_put_def
    by (simp add: assms(1,2,4,5) hi or.assoc del: take_bit_or drop_bit_or)
  also have "\<dots> = (take_bit a raw OR push_bit a (take_bit b (drop_bit s raw)))
     OR push_bit (a + b) (take_bit c (drop_bit (a + b) raw))
     OR push_bit (a + b + c) (take_bit d (drop_bit (a + b + c) raw))"
    by (simp only: rejoin)
  also have "\<dots> = (take_bit a raw OR push_bit a (take_bit b (drop_bit a raw)))
     OR push_bit (a + b) (take_bit c (drop_bit (a + b) raw))
     OR push_bit (a + b + c) (take_bit d (drop_bit (a + b + c) raw))"
    using assms(3) by auto
  also have "\<dots> = raw"
    using split4 [OF assms(6)] by (simp only: or.assoc)
  finally show ?thesis .
qed

lemma get_put_fields:
  fixes S E G a b c d :: nat
  defines "raw \<equiv> (take_bit a S OR push_bit a (take_bit b (drop_bit a S)))
     OR push_bit (a + b) (take_bit c E)
     OR push_bit (a + b + c) (take_bit d G)"
  shows "take_bit d (drop_bit (a + b + c) raw) = take_bit d G"
    and "take_bit c (drop_bit (a + b) raw) = take_bit c E"
    and "take_bit a raw OR push_bit a (take_bit b (drop_bit a raw)) = take_bit (a + b) S"
proof -
  have raw: "raw = take_bit (a + b) S
     OR push_bit (a + b) (take_bit c E)
     OR push_bit (a + b + c) (take_bit d G)"
    by (simp add: raw_def join2)
  show "take_bit d (drop_bit (a + b + c) raw) = take_bit d G"
    unfolding raw by (rule bit_eqI) (auto simp add: bit_simps)
  show "take_bit c (drop_bit (a + b) raw) = take_bit c E"
    unfolding raw by (rule bit_eqI) (auto simp add: bit_simps)
  have "take_bit (a + b) raw = take_bit (a + b) S"
    unfolding raw by (rule bit_eqI) (auto simp add: bit_simps)
  then show "take_bit a raw OR push_bit a (take_bit b (drop_bit a raw)) = take_bit (a + b) S"
    by (simp add: join2)
qed

lemma decompose_slots_compose_slots:
  assumes "slot_of tab mantissa_l = (0, a)"
    and "slot_of tab mantissa_h = (s, b)"
    and "b = 0 \<or> s = a"
    and "slot_of tab exponent = (a + b, c)"
    and "slot_of tab sign = (a + b + c, d)"
  shows "decompose_slots tab (compose_slots tab p) =
     \<lparr>sign_bit = take_bit d (sign_bit p),
      exponent_field = take_bit c (exponent_field p),
      significand = take_bit (a + b) (significand p)\<rparr>"
proof -
  have hi: "push_bit s (take_bit b x) = push_bit a (take_bit b x)" for x :: nat
    using assms(3) by auto
  have lo: "take_bit b (drop_bit s x) = take_bit b (drop_bit a x)" for x :: nat
    using assms(3) by auto
  define raw where "raw = (take_bit a (significand p)
       OR push_bit a (take_bit b (drop_bit a (significand p))))
     OR push_bit (a + b) (take_bit c (exponent_field p))
     OR push_bit (a + b + c) (take_bit d (sign_bit p))"
  have "field_put tab pad 0 = 0"
    by (simp add: field_put_def split: prod.split)
  then have raw: "compose_slots tab p = raw"
    unfolding compose_slots_def raw_def
    by (simp add: field_put_def assms(1,2,4,5) hi or.assoc)
  have "decompose_slots tab raw =
     \<lparr>sign_bit = take_bit d (drop_bit (a + b + c) raw),
      exponent_field = take_bit c (drop_bit (a + b) raw),
      significand = take_bit a raw OR push_bit a (take_bit b (drop_bit a raw))\<rparr>"
    by (simp add: decompose_slots_def field_get_def assms(1,2,4,5) lo)
  also have "\<dots> =
     \<lparr>sign_bit = take_bit d (sign_bit p),
      exponent_field = take_bit c (exponent_field p),
      significand = take_bit (a + b) (significand p)\<rparr>"
    unfolding raw_def by (simp only: get_put_fields)
  finally show ?thesis
    by (simp only: raw)
qed

text \<open>
  The slot tables of the four kinds. Both member orders give the same shifts: the
  big-endian order is the reverse of the little-endian one and is packed from the
  top.
\<close>

lemmas overlay_defs =
  IEEEl2bits_80_def IEEEl2bits_128_def IEEEl2bits_64_def IEEEbinary128_def
  fixed_bits_def ieee754_binary32_def slots_def total_width_def

lemma slots_binary32:
  "slot_of (slots le (fixed_bits ieee754_binary32 le)) mantissa_l = (0, 23)"
  "slot_of (slots le (fixed_bits ieee754_binary32 le)) mantissa_h = (0, 0)"
  "slot_of (slots le (fixed_bits ieee754_binary32 le)) exponent = (23, 8)"
  "slot_of (slots le (fixed_bits ieee754_binary32 le)) sign = (31, 1)"
  "slot_of (slots le (fixed_bits ieee754_binary32 le)) pad = (0, 0)"
  by (simp_all add: overlay_defs)

lemma slots_binary64:
  "slot_of (slots le (IEEEl2bits_64 le)) mantissa_l = (0, 32)"
  "slot_of (slots le (IEEEl2bits_64 le)) mantissa_h = (32, 20)"
  "slot_of (slots le (IEEEl2bits_64 le)) exponent = (52, 11)"
  "slot_of (slots le (IEEEl2bits_64 le)) sign = (63, 1)"
  "slot_of (slots le (IEEEl2bits_64 le)) pad = (0, 0)"
  by (simp_all add: overlay_defs)

lemma slots_binary80:
  "slot_of (slots le (IEEEl2bits_80 le)) mantissa_l = (0, 32)"
  "slot_of (slots le (IEEEl2bits_80 le)) mantissa_h = (32, 32)"
  "slot_of (slots le (IEEEl2bits_80 le)) exponent = (64, 15)"
  "slot_of (slots le (IEEEl2bits_80 le)) sign = (79, 1)"
  "slot_of (slots le (IEEEl2bits_80 le)) pad = (80, 32)"
  by (simp_all add: overlay_defs)

lemma slots_binary128:
  "slot_of (slots le (IEEEbinary128 le)) mantissa_l = (0, 64)"
  "slot_of (slots le (IEEEbinary128 le)) mantissa_h = (64, 48)"
  "slot_of (slots le (IEEEbinary128 le)) exponent = (112, 15)"
  "slot_of (slots le (IEEEbinary128 le)) sign = (127, 1)"
  "slot_of (slots le (IEEEbinary128 le)) pad = (0, 0)"
  by (simp_all add: overlay_defs)

lemma descriptor_widths:
  "nat (exponent_bits ieee754_binary32) = 8"
  "nat (significand_bits ieee754_binary32) = 23"
  "nat (exponent_bits ieee754_binary64) = 11"
  "nat (significand_bits ieee754_binary64) = 52"
  "nat (exponent_bits ieee754_binary80) = 15"
  "nat (significand_bits ieee754_binary80) = 63"
  "nat (exponent_bits ieee754_binary128) = 15"
  "nat (significand_bits ieee754_binary128) = 112"
  by (simp_all add: ieee754_binary32_def ieee754_binary64_def ieee754_binary80_def
      ieee754_binary128_def)

text \<open>
  The tables of the declared overlays in full: under the little-endian member
  order the shifts go up in declaration order from 0, and the table of the
  big-endian member order holds the same slots in reverse.
\<close>

lemma slots_mirror:
  "slots True (IEEEl2bits_80 True)
     = [(mantissa_l, 0, 32), (mantissa_h, 32, 32), (exponent, 64, 15), (sign, 79, 1),
        (pad, 80, 32)]"
  "slots True (IEEEl2bits_128 True)
     = [(mantissa_l, 0, 64), (mantissa_h, 64, 48), (exponent, 112, 15), (sign, 127, 1)]"
  "slots True (IEEEl2bits_64 True)
     = [(mantissa_l, 0, 32), (mantissa_h, 32, 20), (exponent, 52, 11), (sign, 63, 1)]"
  "slots True (IEEEbinary128 True)
     = [(mantissa_l, 0, 64), (mantissa_h, 64, 48), (exponent, 112, 15), (sign, 127, 1)]"
  "slots False (IEEEl2bits_80 False) = rev (slots True (IEEEl2bits_80 True))"
  "slots False (IEEEl2bits_128 False) = rev (slots True (IEEEl2bits_128 True))"
  "slots False (IEEEl2bits_64 False) = rev (slots True (IEEEl2bits_64 True))"
  "slots False (IEEEbinary128 False) = rev (slots True (IEEEbinary128 True))"
  by (simp_all add: overlay_defs)

section \<open>The descriptor constants\<close>

text \<open>
  C3. The bias constants of the two families have opposite signs for the same
  concept: \<open>ieee754_binary80\<close> and \<open>ieee754_binary128\<close> carry \<open>+16383\<close>, the
  offset added to the true exponent to give the stored field, so that the
  smallest and largest normal exponents are stored as \<open>1\<close> and
  \<open>2 ^ exponent_bits - 2\<close>; \<open>ieee754_binary32\<close> and \<open>ieee754_binary64\<close> carry
  \<open>-127\<close> and \<open>-1023\<close>, which have to be subtracted to give the same stored
  codes.
\<close>

theorem exponent_bias_sign_conventions:
  "exponent_bias ieee754_binary80 = 16383
   \<and> exponent_bias ieee754_binary128 = 16383
   \<and> exponent_bias ieee754_binary32 = - 127
   \<and> exponent_bias ieee754_binary64 = - 1023
   \<and> min_exponent ieee754_binary80 + exponent_bias ieee754_binary80 = 1
   \<and> max_exponent ieee754_binary80 + exponent_bias ieee754_binary80
       = 2 ^ nat (exponent_bits ieee754_binary80) - 2
   \<and> min_exponent ieee754_binary128 + exponent_bias ieee754_binary128 = 1
   \<and> max_exponent ieee754_binary128 + exponent_bias ieee754_binary128
       = 2 ^ nat (exponent_bits ieee754_binary128) - 2
   \<and> min_exponent ieee754_binary32 - exponent_bias ieee754_binary32 = 1
   \<and> max_exponent ieee754_binary32 - exponent_bias ieee754_binary32
       = 2 ^ nat (exponent_bits ieee754_binary32) - 2
   \<and> min_exponent ieee754_binary64 - exponent_bias ieee754_binary64 = 1
   \<and> max_exponent ieee754_binary64 - exponent_bias ieee754_binary64
       = 2 ^ nat (exponent_bits ieee754_binary64) - 2"
  by (simp add: ieee754_binary32_def ieee754_binary64_def ieee754_binary80_def
      ieee754_binary128_def)

text \<open>
  C4. The literal constants of the four structs: \<open>decimal_digits\<close> is 9, 17, 18
  and 33, \<open>exponent_bits\<close> is 8, 11, 15 and 15, and \<open>significand_bits\<close> is 23,
  52, 63 and 112 for binary32, binary64, binary80 and binary128.
\<close>

theorem literal_constant_table:
  "map decimal_digits
     [ieee754_binary32, ieee754_binary64, ieee754_binary80, ieee754_binary128]
     = [9, 17, 18, 33]
   \<and> map exponent_bits
     [ieee754_binary32, ieee754_binary64, ieee754_binary80, ieee754_binary128]
     = [8, 11, 15, 15]
   \<and> map significand_bits
     [ieee754_binary32, ieee754_binary64, ieee754_binary80, ieee754_binary128]
     = [23, 52, 63, 112]"
  by (simp add: ieee754_binary32_def ieee754_binary64_def ieee754_binary80_def
      ieee754_binary128_def)

text \<open>
  C5. For each of the four structs,
  \<open>max_exponent - min_exponent + 1 = 2 ^ exponent_bits - 2\<close>: two codes of the
  exponent field are kept for zero and subnormals and for infinity and NaN.
\<close>

theorem exponent_range_consistency:
  "max_exponent ieee754_binary32 - min_exponent ieee754_binary32 + 1
     = 2 ^ nat (exponent_bits ieee754_binary32) - 2
   \<and> max_exponent ieee754_binary64 - min_exponent ieee754_binary64 + 1
     = 2 ^ nat (exponent_bits ieee754_binary64) - 2
   \<and> max_exponent ieee754_binary80 - min_exponent ieee754_binary80 + 1
     = 2 ^ nat (exponent_bits ieee754_binary80) - 2
   \<and> max_exponent ieee754_binary128 - min_exponent ieee754_binary128 + 1
     = 2 ^ nat (exponent_bits ieee754_binary128) - 2"
  by (simp add: ieee754_binary32_def ieee754_binary64_def ieee754_binary80_def
      ieee754_binary128_def)

section \<open>Layout selection and the declared overlays\<close>

text \<open>
  C6. The layout of the native long double is a function of the two platform
  constants \<open>LDBL_MANT_DIG\<close> and \<open>LDBL_MAX_EXP\<close> alone, fixed when the header
  is preprocessed: 64 digits with bound 16384 select Extended80, 113 digits with
  bound 16384 Quad128, 53 digits with bound 1024 Aliased64, and every other pair
  Unsupported. The struct \<open>IEEEl2bits\<close>, the macro \<open>BOOST_CHARCONV_LDBL_BITS\<close>
  and the macro \<open>BOOST_MATH_UNSUPPORTED_LONG_DOUBLE\<close> follow the selection.
\<close>

theorem layout_selection:
  "(layout_kind m e = Extended80) = (m = 64 \<and> e = 16384)
   \<and> (layout_kind m e = Quad128) = (m = 113 \<and> e = 16384)
   \<and> (layout_kind m e = Aliased64) = (m = 53 \<and> e = 1024)
   \<and> (layout_kind m e = Unsupported)
       = (\<not> (m = 64 \<and> e = 16384) \<and> \<not> (m = 113 \<and> e = 16384) \<and> \<not> (m = 53 \<and> e = 1024))
   \<and> IEEEl2bits m e le =
       (case layout_kind m e of
          Extended80 \<Rightarrow> Some (IEEEl2bits_80 le)
        | Quad128 \<Rightarrow> Some (IEEEl2bits_128 le)
        | Aliased64 \<Rightarrow> Some (IEEEl2bits_64 le)
        | Unsupported \<Rightarrow> None)
   \<and> BOOST_CHARCONV_LDBL_BITS m e =
       (case layout_kind m e of
          Extended80 \<Rightarrow> Some 80
        | Quad128 \<Rightarrow> Some 128
        | Aliased64 \<Rightarrow> Some 64
        | Unsupported \<Rightarrow> None)
   \<and> BOOST_MATH_UNSUPPORTED_LONG_DOUBLE m e = (layout_kind m e = Unsupported)"
  by (simp add: layout_kind_def IEEEl2bits_def BOOST_CHARCONV_LDBL_BITS_def
      BOOST_MATH_UNSUPPORTED_LONG_DOUBLE_def)

text \<open>
  C8. In every overlay the header declares, the little-endian member order starts
  with the low mantissa word and goes up through the high mantissa word, the
  exponent and the sign (the 80 bit overlay then ends with its padding), and the
  big-endian member order is the exact reverse of the little-endian one.
\<close>

theorem field_ordering:
  "map fname (IEEEl2bits_80 True) = [mantissa_l, mantissa_h, exponent, sign, pad]
   \<and> map fname (IEEEl2bits_128 True) = [mantissa_l, mantissa_h, exponent, sign]
   \<and> map fname (IEEEl2bits_64 True) = [mantissa_l, mantissa_h, exponent, sign]
   \<and> map fname (IEEEbinary128 True) = [mantissa_l, mantissa_h, exponent, sign]
   \<and> IEEEl2bits_80 False = rev (IEEEl2bits_80 True)
   \<and> IEEEl2bits_128 False = rev (IEEEl2bits_128 True)
   \<and> IEEEl2bits_64 False = rev (IEEEl2bits_64 True)
   \<and> IEEEbinary128 False = rev (IEEEbinary128 True)
   \<and> IEEEl2bits m e False = map_option rev (IEEEl2bits m e True)"
  by (simp add: IEEEl2bits_def IEEEl2bits_80_def IEEEl2bits_128_def IEEEl2bits_64_def
      IEEEbinary128_def)

text \<open>
  C2, as the specification states it, fails for binary80: the widths that the 80
  bit overlay declares, its padding included, sum to 112 and not to 80.
\<close>

theorem binary80_declared_width_counterexample:
  "IEEEl2bits 64 16384 True = Some (IEEEl2bits_80 True)
   \<and> total_width (IEEEl2bits_80 True) = 112
   \<and> total_width (IEEEl2bits_80 True) \<noteq> 80"
  by (simp add: IEEEl2bits_def total_width_def IEEEl2bits_80_def)

text \<open>
  C2, amended. In every overlay the header declares, under both member orders,
  the widths of the sign, exponent and mantissa members sum to the storage width
  of the kind: 64 for the 64 bit overlay, 80 for the 80 bit overlay, 128 for the
  two quad overlays. Only the 80 bit overlay declares padding, 32 bits of it,
  which come on top of the 80: it declares 112 bits in all. In each overlay the
  sign is 1 bit, the exponent has \<open>exponent_bits\<close> bits and the two mantissa
  words together have \<open>significand_bits\<close> bits of the matching descriptor, plus
  the explicit integer bit in the 80 bit overlay only. For binary32 the header
  declares no overlay; the fields of its descriptor, \<open>1 + exponent_bits +
  significand_bits\<close>, sum to 32, and so does the layout built from them.
\<close>

theorem field_widths_by_kind:
  "value_width (fixed_bits ieee754_binary32 le) = 32
   \<and> total_width (fixed_bits ieee754_binary32 le) = 32
   \<and> 1 + exponent_bits ieee754_binary32 + significand_bits ieee754_binary32 = 32
   \<and> value_width (IEEEl2bits_64 le) = 64
   \<and> total_width (IEEEl2bits_64 le) = 64
   \<and> matches_descriptor (IEEEl2bits_64 le) ieee754_binary64 0
   \<and> value_width (IEEEl2bits_80 le) = 80
   \<and> width_of (IEEEl2bits_80 le) pad = 32
   \<and> total_width (IEEEl2bits_80 le) = 112
   \<and> matches_descriptor (IEEEl2bits_80 le) ieee754_binary80 1
   \<and> value_width (IEEEl2bits_128 le) = 128
   \<and> total_width (IEEEl2bits_128 le) = 128
   \<and> matches_descriptor (IEEEl2bits_128 le) ieee754_binary128 0
   \<and> value_width (IEEEbinary128 le) = 128
   \<and> total_width (IEEEbinary128 le) = 128
   \<and> matches_descriptor (IEEEbinary128 le) ieee754_binary128 0"
  by (simp add: value_width_def matches_descriptor_def width_of_def total_width_def
      IEEEl2bits_80_def IEEEl2bits_128_def IEEEl2bits_64_def IEEEbinary128_def
      fixed_bits_def ieee754_binary32_def ieee754_binary64_def ieee754_binary80_def
      ieee754_binary128_def)

text \<open>
  C10. When the native long double resolves to Quad128, the struct \<open>IEEEl2bits\<close>
  is member for member the struct \<open>IEEEbinary128\<close> (same types, names, widths
  and order, under either member order), so decomposing and composing through the
  native overlay gives what the fixed quad overlay gives, for every raw pattern
  and every set of fields.
\<close>

theorem quad_overlays_agree:
  assumes "layout_kind m e = Quad128"
  shows "IEEEl2bits m e le = Some (IEEEbinary128 le)
   \<and> map_option (\<lambda>fs. decompose_fields fs le raw) (IEEEl2bits m e le)
       = Some (decompose binary128 le raw)
   \<and> map_option (\<lambda>fs. compose_fields fs le p) (IEEEl2bits m e le)
       = Some (compose binary128 le p)"
proof -
  have "m = 113 \<and> e = 16384"
    using assms by (simp add: layout_kind_def split: if_splits)
  then have "IEEEl2bits m e le = Some (IEEEbinary128 le)"
    by (simp add: IEEEl2bits_def IEEEl2bits_128_def IEEEbinary128_def)
  then show ?thesis
    by (simp add: decompose_def compose_def)
qed

theorem quad_overlays_agree_witness:
  "layout_kind 113 16384 = Quad128
   \<and> IEEEl2bits 113 16384 True = Some (IEEEbinary128 True)
   \<and> map_option (\<lambda>fs. decompose_fields fs True (2 ^ 127)) (IEEEl2bits 113 16384 True)
       = Some (decompose binary128 True (2 ^ 127))
   \<and> map_option (\<lambda>fs. compose_fields fs True \<lparr>sign_bit = 1, exponent_field = 0, significand = 0\<rparr>)
         (IEEEl2bits 113 16384 True)
       = Some (compose binary128 True \<lparr>sign_bit = 1, exponent_field = 0, significand = 0\<rparr>)"
proof -
  have q: "layout_kind 113 16384 = Quad128"
    by (simp add: layout_kind_def)
  show ?thesis
    using q quad_overlays_agree [OF q, of True "2 ^ 127"
        "\<lparr>sign_bit = 1, exponent_field = 0, significand = 0\<rparr>"]
    by blast
qed

section \<open>The bit view\<close>

text \<open>
  C1. For each of the four kinds, both member orders and every raw bit pattern of
  the kind's width, \<open>compose\<close> after \<open>decompose\<close> gives the pattern back. The
  statement is about all patterns, so zero, infinities, NaNs, the pattern with
  only the sign bit and the unnormal patterns of binary80 are among them.
\<close>

theorem decompose_compose_roundtrip:
  assumes "raw < 2 ^ storage_bits k"
  shows "compose k le (decompose k le raw) = raw"
proof -
  let ?tab = "slots le (kind_fields k le)"
  have "compose_slots ?tab (decompose_slots ?tab raw) = raw"
  proof (cases k)
    case binary32
    show ?thesis
      unfolding binary32
      by (rule roundtrip_slots [where a = 23 and b = 0 and c = 8 and d = 1 and s = 0])
        (use assms binary32 in \<open>simp_all add: slots_binary32\<close>)
  next
    case binary64
    show ?thesis
      unfolding binary64
      by (rule roundtrip_slots [where a = 32 and b = 20 and c = 11 and d = 1 and s = 32])
        (use assms binary64 in \<open>simp_all add: slots_binary64\<close>)
  next
    case binary80
    show ?thesis
      unfolding binary80
      by (rule roundtrip_slots [where a = 32 and b = 32 and c = 15 and d = 1 and s = 32])
        (use assms binary80 in \<open>simp_all add: slots_binary80\<close>)
  next
    case binary128
    show ?thesis
      unfolding binary128
      by (rule roundtrip_slots [where a = 64 and b = 48 and c = 15 and d = 1 and s = 64])
        (use assms binary128 in \<open>simp_all add: slots_binary128\<close>)
  qed
  then show ?thesis
    by (simp add: compose_def decompose_def compose_fields_def decompose_fields_def)
qed

text \<open>
  The witness takes the boundary patterns: all zero (binary32), an infinity
  (binary64), a NaN and the sign bit alone (binary128), and an unnormal of
  binary80, with exponent field 1 and integer bit 0.
\<close>

theorem decompose_compose_roundtrip_witness:
  "(0::nat) < 2 ^ storage_bits binary32
   \<and> compose binary32 True (decompose binary32 True 0) = 0
   \<and> (0x7FF0000000000000::nat) < 2 ^ storage_bits binary64
   \<and> compose binary64 False (decompose binary64 False 0x7FF0000000000000)
       = 0x7FF0000000000000
   \<and> (0x7FFF8000000000000000000000000001::nat) < 2 ^ storage_bits binary128
   \<and> compose binary128 True (decompose binary128 True 0x7FFF8000000000000000000000000001)
       = 0x7FFF8000000000000000000000000001
   \<and> (2::nat) ^ 127 < 2 ^ storage_bits binary128
   \<and> compose binary128 False (decompose binary128 False (2 ^ 127)) = 2 ^ 127
   \<and> (2::nat) ^ 64 < 2 ^ storage_bits binary80
   \<and> decompose binary80 True (2 ^ 64)
       = \<lparr>sign_bit = 0, exponent_field = 1, significand = 0\<rparr>
   \<and> compose binary80 True (decompose binary80 True (2 ^ 64)) = 2 ^ 64"
proof -
  have unnormal: "decompose binary80 True (2 ^ 64)
       = \<lparr>sign_bit = 0, exponent_field = 1, significand = 0\<rparr>"
    by (simp add: decompose_def decompose_fields_def decompose_slots_def field_get_def
        slots_binary80 take_bit_eq_mod drop_bit_eq_div push_bit_eq_mult)
  have b: "(0::nat) < 2 ^ storage_bits binary32"
    "(0x7FF0000000000000::nat) < 2 ^ storage_bits binary64"
    "(0x7FFF8000000000000000000000000001::nat) < 2 ^ storage_bits binary128"
    "(2::nat) ^ 127 < 2 ^ storage_bits binary128"
    "(2::nat) ^ 64 < 2 ^ storage_bits binary80"
    by simp_all
  show ?thesis
    using b unnormal
      decompose_compose_roundtrip [OF b(1), of True]
      decompose_compose_roundtrip [OF b(2), of False]
      decompose_compose_roundtrip [OF b(3), of True]
      decompose_compose_roundtrip [OF b(4), of False]
      decompose_compose_roundtrip [OF b(5), of True]
    by (simp only: simp_thms)
qed

text \<open>
  C7. \<open>decompose\<close> and \<open>compose\<close> have a result for every input, with no
  condition on the raw pattern or on the fields: every decomposed field lies in
  the range of its width in the descriptor, and every composed pattern lies in
  the kind's storage width. The one failure of the component, an unsupported long
  double, is the flag \<open>BOOST_MATH_UNSUPPORTED_LONG_DOUBLE\<close>; it depends on the
  platform constants only, and it is set exactly when the header declares no
  native overlay and defines no \<open>BOOST_CHARCONV_LDBL_BITS\<close>.
\<close>

theorem decompose_compose_total:
  "sign_bit (decompose k le raw) < 2
   \<and> exponent_field (decompose k le raw) < 2 ^ nat (exponent_bits (lookup k))
   \<and> significand (decompose k le raw)
       < 2 ^ (nat (significand_bits (lookup k)) + (if k = binary80 then 1 else 0))
   \<and> compose k le p < 2 ^ storage_bits k
   \<and> BOOST_MATH_UNSUPPORTED_LONG_DOUBLE m e = (IEEEl2bits m e le = None)
   \<and> BOOST_MATH_UNSUPPORTED_LONG_DOUBLE m e = (BOOST_CHARCONV_LDBL_BITS m e = None)"
proof -
  let ?tab = "slots le (kind_fields k le)"
  have s: "sign_bit (decompose k le raw) < 2"
    using field_get_less [of ?tab sign _ 1 raw]
    by (cases k)
      (simp_all add: decompose_def decompose_fields_def decompose_slots_def
        slots_binary32 slots_binary64 slots_binary80 slots_binary128)
  have x: "exponent_field (decompose k le raw) < 2 ^ nat (exponent_bits (lookup k))"
  proof (cases k)
    case binary32
    then show ?thesis
      using field_get_less [of ?tab exponent 23 8 raw]
      by (simp add: decompose_def decompose_fields_def decompose_slots_def
          slots_binary32 descriptor_widths)
  next
    case binary64
    then show ?thesis
      using field_get_less [of ?tab exponent 52 11 raw]
      by (simp add: decompose_def decompose_fields_def decompose_slots_def
          slots_binary64 descriptor_widths)
  next
    case binary80
    then show ?thesis
      using field_get_less [of ?tab exponent 64 15 raw]
      by (simp add: decompose_def decompose_fields_def decompose_slots_def
          slots_binary80 descriptor_widths)
  next
    case binary128
    then show ?thesis
      using field_get_less [of ?tab exponent 112 15 raw]
      by (simp add: decompose_def decompose_fields_def decompose_slots_def
          slots_binary128 descriptor_widths)
  qed
  have f: "significand (decompose k le raw)
       < 2 ^ (nat (significand_bits (lookup k)) + (if k = binary80 then 1 else 0))"
  proof (cases k)
    case binary32
    then show ?thesis
      using significand_less [of ?tab 0 23 0 0 raw]
      by (simp add: decompose_def decompose_fields_def slots_binary32 descriptor_widths)
  next
    case binary64
    then show ?thesis
      using significand_less [of ?tab 0 32 32 20 raw]
      by (simp add: decompose_def decompose_fields_def slots_binary64 descriptor_widths)
  next
    case binary80
    then show ?thesis
      using significand_less [of ?tab 0 32 32 32 raw]
      by (simp add: decompose_def decompose_fields_def slots_binary80 descriptor_widths)
  next
    case binary128
    then show ?thesis
      using significand_less [of ?tab 0 64 64 48 raw]
      by (simp add: decompose_def decompose_fields_def slots_binary128 descriptor_widths)
  qed
  have c: "compose k le p < 2 ^ storage_bits k"
  proof (cases k)
    case binary32
    then show ?thesis
      using compose_slots_less [of ?tab 0 23 32 0 0 23 8 31 1 p]
      by (simp add: compose_def compose_fields_def slots_binary32)
  next
    case binary64
    then show ?thesis
      using compose_slots_less [of ?tab 0 32 64 32 20 52 11 63 1 p]
      by (simp add: compose_def compose_fields_def slots_binary64)
  next
    case binary80
    then show ?thesis
      using compose_slots_less [of ?tab 0 32 80 32 32 64 15 79 1 p]
      by (simp add: compose_def compose_fields_def slots_binary80)
  next
    case binary128
    then show ?thesis
      using compose_slots_less [of ?tab 0 64 128 64 48 112 15 127 1 p]
      by (simp add: compose_def compose_fields_def slots_binary128)
  qed
  have u: "BOOST_MATH_UNSUPPORTED_LONG_DOUBLE m e = (IEEEl2bits m e le = None)"
    "BOOST_MATH_UNSUPPORTED_LONG_DOUBLE m e = (BOOST_CHARCONV_LDBL_BITS m e = None)"
    by (simp_all add: BOOST_MATH_UNSUPPORTED_LONG_DOUBLE_def IEEEl2bits_def
        BOOST_CHARCONV_LDBL_BITS_def)
  from s x f c u show ?thesis
    by (simp only: simp_thms)
qed

text \<open>
  C9. The binary64 pattern of 1.0 decomposes into sign 0, exponent field 1023 and
  significand 0, and the binary32 pattern of -2.0 into sign 1, exponent field 128
  and significand 0, under either member order. Against the biases of the
  descriptors the two exponent fields are the true exponents 0 and 1.
\<close>

theorem decompose_scenarios:
  "decompose binary64 le 0x3FF0000000000000
     = \<lparr>sign_bit = 0, exponent_field = 1023, significand = 0\<rparr>
   \<and> decompose binary32 le 0xC0000000
     = \<lparr>sign_bit = 1, exponent_field = 128, significand = 0\<rparr>
   \<and> int 1023 + exponent_bias ieee754_binary64 = 0
   \<and> int 128 + exponent_bias ieee754_binary32 = 1"
proof -
  have one: "decompose binary64 le 0x3FF0000000000000
     = \<lparr>sign_bit = 0, exponent_field = 1023, significand = 0\<rparr>"
    by (simp add: decompose_def decompose_fields_def decompose_slots_def field_get_def
        slots_binary64 take_bit_eq_mod drop_bit_eq_div push_bit_eq_mult)
  have minus_two: "decompose binary32 le 0xC0000000
     = \<lparr>sign_bit = 1, exponent_field = 128, significand = 0\<rparr>"
    by (simp add: decompose_def decompose_fields_def decompose_slots_def field_get_def
        slots_binary32 take_bit_eq_mod drop_bit_eq_div push_bit_eq_mult)
  have "int 1023 + exponent_bias ieee754_binary64 = 0"
    and "int 128 + exponent_bias ieee754_binary32 = 1"
    by (simp_all add: ieee754_binary32_def ieee754_binary64_def)
  with one minus_two show ?thesis
    by (simp only: simp_thms)
qed

section \<open>Further properties of the bit view\<close>

text \<open>
  In the other direction \<open>decompose\<close> after \<open>compose\<close> gives the fields
  back, each cut to its width: on fields within their widths the two operations
  are inverse to each other.
\<close>

lemma decompose_after_compose:
  "decompose k le (compose k le p) =
     \<lparr>sign_bit = take_bit 1 (sign_bit p),
      exponent_field = take_bit (nat (exponent_bits (lookup k))) (exponent_field p),
      significand =
        take_bit (nat (significand_bits (lookup k)) + (if k = binary80 then 1 else 0))
          (significand p)\<rparr>"
proof (cases k)
  case binary32
  then show ?thesis
    using decompose_slots_compose_slots
      [of "slots le (kind_fields k le)" 23 0 0 8 1 p]
    by (simp add: decompose_def compose_def decompose_fields_def compose_fields_def
        slots_binary32 descriptor_widths)
next
  case binary64
  then show ?thesis
    using decompose_slots_compose_slots
      [of "slots le (kind_fields k le)" 32 32 20 11 1 p]
    by (simp add: decompose_def compose_def decompose_fields_def compose_fields_def
        slots_binary64 descriptor_widths)
next
  case binary80
  then show ?thesis
    using decompose_slots_compose_slots
      [of "slots le (kind_fields k le)" 32 32 32 15 1 p]
    by (simp add: decompose_def compose_def decompose_fields_def compose_fields_def
        slots_binary80 descriptor_widths)
next
  case binary128
  then show ?thesis
    using decompose_slots_compose_slots
      [of "slots le (kind_fields k le)" 64 64 48 15 1 p]
    by (simp add: decompose_def compose_def decompose_fields_def compose_fields_def
        slots_binary128 descriptor_widths)
qed

text \<open>
  The padding of the 80 bit overlay lies above the 80 bits of the kind. It is not
  read and is written as zero, so a bit set there does not come back.
\<close>

lemma padding_not_preserved:
  "compose binary80 le (decompose binary80 le (2 ^ 80 + 1)) = 1"
  by (simp add: compose_def decompose_def compose_fields_def decompose_fields_def
      compose_slots_def decompose_slots_def field_get_def field_put_def slots_binary80
      take_bit_eq_mod drop_bit_eq_div push_bit_eq_mult)

text \<open>
  binary64 read through the layout built from its descriptor, the way binary32 is
  read, decomposes as through the header's 64 bit overlay.
\<close>

lemma fixed_binary64_agrees:
  "decompose_fields (fixed_bits ieee754_binary64 le) le raw = decompose binary64 le raw"
proof -
  have "slot_of (slots le (fixed_bits ieee754_binary64 le)) mantissa_l = (0, 52)"
    "slot_of (slots le (fixed_bits ieee754_binary64 le)) mantissa_h = (0, 0)"
    "slot_of (slots le (fixed_bits ieee754_binary64 le)) exponent = (52, 11)"
    "slot_of (slots le (fixed_bits ieee754_binary64 le)) sign = (63, 1)"
    by (simp_all add: fixed_bits_def ieee754_binary64_def slots_def total_width_def)
  then show ?thesis
    using join2 [of 32 raw 20]
    by (simp add: decompose_def decompose_fields_def decompose_slots_def field_get_def
        slots_binary64)
qed

end
